theory Spec2Isabelle
  imports Main "HOL-Library.Word" "HOL-Library.AList" "HOL-Library.List_Lexorder"
begin

unbundle bit_operations_syntax

section \<open>Graph modality: \<open>neighborship_t\<close> (include/ukv\_graph.hpp)\<close>

text \<open>
  \<^verbatim>\<open>struct neighborship_t { ukv_key_t neighbor_id = 0; ukv_key_t edge_id = 0; ... }\<close>,
  with \<^verbatim>\<open>ukv_key_t\<close> the 64-bit unsigned integer of ukv.h.
\<close>

type_synonym ukv_key_t = "64 word"

record neighborship_t =
  neighbor_id :: ukv_key_t
  edge_id :: ukv_key_t

text \<open>
  \<^verbatim>\<open>operator<(neighborship_t a, neighborship_t b)\<close> returns
  \<^verbatim>\<open>(a.neighbor_id < b.neighbor_id) | ((a.neighbor_id == b.neighbor_id) | (a.edge_id < b.edge_id))\<close>.
  On \<^verbatim>\<open>bool\<close> operands the bitwise \<^verbatim>\<open>|\<close> and \<^verbatim>\<open>&\<close> are disjunction and
  conjunction (both sides are evaluated, and neither has an effect).
\<close>

definition neighborship_less :: "neighborship_t \<Rightarrow> neighborship_t \<Rightarrow> bool" where
  "neighborship_less a b =
     ((neighbor_id a < neighbor_id b) \<or> ((neighbor_id a = neighbor_id b) \<or> (edge_id a < edge_id b)))"

text \<open>
  \<^verbatim>\<open>operator==(neighborship_t a, neighborship_t b)\<close> returns
  \<^verbatim>\<open>(a.neighbor_id == b.neighbor_id) & (a.edge_id < b.edge_id)\<close>.
\<close>

definition neighborship_eq :: "neighborship_t \<Rightarrow> neighborship_t \<Rightarrow> bool" where
  "neighborship_eq a b = ((neighbor_id a = neighbor_id b) \<and> (edge_id a < edge_id b))"

section \<open>ABI types and constants (include/ukv.h, src/backend\_rocksdb.cpp)\<close>

text \<open>
  Bytes, value lengths (\<^verbatim>\<open>uint32_t\<close>), error strings (\<^verbatim>\<open>char const*\<close>, with
  \<open>None\<close> for \<^verbatim>\<open>NULL\<close>) and collection handles (\<^verbatim>\<open>void*\<close>: \<open>None\<close> is
  \<^verbatim>\<open>NULL\<close>, \<open>Some h\<close> the address \<open>h\<close> of an engine \<^verbatim>\<open>ColumnFamilyHandle\<close>).
  Counts of type \<^verbatim>\<open>ukv_size_t\<close> are natural numbers: every index below is checked
  against the array it addresses before it can grow, so no counter wraps.
\<close>

type_synonym byte_t = "8 word"
type_synonym slice = "byte_t list"
type_synonym ukv_val_len_t = "32 word"
type_synonym ukv_size_t = nat
type_synonym ukv_options_t = "32 word"
type_synonym ukv_error_t = "string option"
type_synonym rocks_col_ptr_t = "nat option"
type_synonym ukv_collection_t = "nat option"

definition ukv_default_collection_k :: ukv_collection_t where
  "ukv_default_collection_k = None"

definition ukv_val_len_missing_k :: ukv_val_len_t where
  "ukv_val_len_missing_k = 4294967295"

definition ukv_key_unknown_k :: ukv_key_t where
  "ukv_key_unknown_k = 18446744073709551615"

text \<open>
  The option flags are tested in the source (\<^verbatim>\<open>c_options & ukv_option_read_transparent_k\<close>)
  but the header under include/ predates them and does not declare their values, so the two
  masks the driver uses are parameters of the model.
\<close>

record ukv_option_masks_t =
  ukv_option_read_transparent_k :: ukv_options_t
  ukv_option_write_flush_k :: ukv_options_t

text \<open>
  What the source leaves undefined (a read or write past an array, a dereferenced null or
  dangling pointer) is a result of its own, so that no theorem speaks about it by accident.
\<close>

datatype undefined_behaviour = Out_Of_Bounds | Null_Dereference | Dangling_Pointer

subsection \<open>Native byte order\<close>

text \<open>
  \<^verbatim>\<open>to_slice(ukv_key_t const& key)\<close> is \<^verbatim>\<open>{reinterpret_cast<char const*>(&key), sizeof(ukv_key_t)}\<close>:
  the eight bytes of the key as they lie in memory. Lengths are stored into the tape with
  \<^verbatim>\<open>memcpy\<close> or through a typed pointer and read back by the caller through
  \<^verbatim>\<open>ukv_val_len_t*\<close>. The model fixes the byte order of the targets the driver is built
  for (x86-64, AArch64): least significant byte first.
\<close>

fun le_bytes :: "nat \<Rightarrow> nat \<Rightarrow> byte_t list" where
  "le_bytes 0 v = []"
| "le_bytes (Suc n) v = of_nat (v mod 256) # le_bytes n (v div 256)"

fun le_value :: "byte_t list \<Rightarrow> nat" where
  "le_value [] = 0"
| "le_value (b # bs) = unat b + 256 * le_value bs"

definition to_slice :: "ukv_key_t \<Rightarrow> slice" where
  "to_slice key = le_bytes 8 (unat key)"

text \<open>\<^verbatim>\<open>std::memcpy(tape + at, src, n)\<close> on a tape that holds at least \<open>at + n\<close> bytes.\<close>

definition memcpy :: "byte_t list \<Rightarrow> nat \<Rightarrow> byte_t list \<Rightarrow> byte_t list" where
  "memcpy tape at src = take at tape @ src @ drop (at + length src) tape"

section \<open>The engine (RocksDB \<^verbatim>\<open>TransactionDB\<close>)\<close>

text \<open>
  RocksDB is a third-party library. Its part of the state is modelled after the engine
  contract of the specification (section 4.1) and the documented behaviour of the calls the
  driver makes:
  \<^item> column families, each a name and an identifier; family 0 is \<^verbatim>\<open>"default"\<close>;
  \<^item> the live \<^verbatim>\<open>ColumnFamilyHandle\<close> objects, each an address and the family it refers to;
    the handle returned by \<^verbatim>\<open>DefaultColumnFamily()\<close> is owned by the engine and has
    address 0;
  \<^item> the entries, keyed by family and key slice;
  \<^item> the status the engine answers with: \<open>Ok\<close> while it works, the failure otherwise
    (an engine that fails changes nothing).
  Keys are ordered by the default \<^verbatim>\<open>BytewiseComparator\<close>, the lexicographic order on
  byte strings.
\<close>

datatype rocks_status_t = Ok | NotFound | Corruption | IOError | InvalidArgument | Failed

type_synonym rocks_entries_t = "((nat \<times> slice) \<times> slice) list"

record rocks_db_t =
  families :: "(string \<times> nat) list"
  handles :: "(nat \<times> nat) list"
  entries :: rocks_entries_t
  health :: rocks_status_t

record ReadOptions =
  snapshot :: "rocks_entries_t option"
  fill_cache :: bool

record WriteOptions =
  sync :: bool

definition DefaultColumnFamily :: nat where
  "DefaultColumnFamily = 0"

definition family_of :: "rocks_db_t \<Rightarrow> nat \<Rightarrow> nat option" where
  "family_of rdb h = (if h = DefaultColumnFamily then Some 0 else map_of (handles rdb) h)"

definition GetName :: "rocks_db_t \<Rightarrow> nat \<Rightarrow> string option" where
  "GetName rdb h =
     (case family_of rdb h of
        None \<Rightarrow> None
      | Some f \<Rightarrow> map_of (map (\<lambda>(name, i). (i, name)) (families rdb)) f)"

definition is_family :: "rocks_db_t \<Rightarrow> nat \<Rightarrow> bool" where
  "is_family rdb f = (f \<in> snd ` set (families rdb))"

definition visible :: "ReadOptions \<Rightarrow> rocks_db_t \<Rightarrow> rocks_entries_t" where
  "visible options rdb = (case snapshot options of None \<Rightarrow> entries rdb | Some s \<Rightarrow> s)"

definition db_Get :: "rocks_db_t \<Rightarrow> ReadOptions \<Rightarrow> nat \<Rightarrow> slice \<Rightarrow> rocks_status_t \<times> slice" where
  "db_Get rdb options f key =
     (if health rdb \<noteq> Ok then (health rdb, [])
      else if \<not> is_family rdb f then (InvalidArgument, [])
      else case map_of (visible options rdb) (f, key) of
             None \<Rightarrow> (NotFound, [])
           | Some v \<Rightarrow> (Ok, v))"

definition db_MultiGet ::
  "rocks_db_t \<Rightarrow> ReadOptions \<Rightarrow> nat list \<Rightarrow> slice list \<Rightarrow> rocks_status_t list \<times> slice list" where
  "db_MultiGet rdb options fs keys =
     (let got = map (\<lambda>(f, key). db_Get rdb options f key) (zip fs keys)
      in (map fst got, map snd got))"

definition db_Put :: "rocks_db_t \<Rightarrow> WriteOptions \<Rightarrow> nat \<Rightarrow> slice \<Rightarrow> slice \<Rightarrow> rocks_status_t \<times> rocks_db_t" where
  "db_Put rdb options f key v =
     (if health rdb \<noteq> Ok then (health rdb, rdb)
      else if \<not> is_family rdb f then (InvalidArgument, rdb)
      else (Ok, rdb\<lparr>entries := AList.update (f, key) v (entries rdb)\<rparr>))"

definition db_Delete :: "rocks_db_t \<Rightarrow> WriteOptions \<Rightarrow> nat \<Rightarrow> slice \<Rightarrow> rocks_status_t \<times> rocks_db_t" where
  "db_Delete rdb options f key =
     (if health rdb \<noteq> Ok then (health rdb, rdb)
      else if \<not> is_family rdb f then (InvalidArgument, rdb)
      else (Ok, rdb\<lparr>entries := AList.delete (f, key) (entries rdb)\<rparr>))"

text \<open>
  \<^verbatim>\<open>SingleDelete\<close> removes the entry like \<^verbatim>\<open>Delete\<close> when the key was put at most once
  since its last removal; the model does not keep the history of overwrites, so the two
  coincide.
\<close>

definition db_SingleDelete :: "rocks_db_t \<Rightarrow> WriteOptions \<Rightarrow> nat \<Rightarrow> slice \<Rightarrow> rocks_status_t \<times> rocks_db_t" where
  "db_SingleDelete rdb options f key = db_Delete rdb options f key"

text \<open>A \<^verbatim>\<open>WriteBatch\<close>: the recorded operations in order, \<open>Some v\<close> a Put and \<open>None\<close> a Delete.\<close>

type_synonym WriteBatch = "((nat \<times> slice) \<times> slice option) list"

fun apply_batch :: "WriteBatch \<Rightarrow> rocks_entries_t \<Rightarrow> rocks_entries_t" where
  "apply_batch [] es = es"
| "apply_batch ((k, None) # ops) es = apply_batch ops (AList.delete k es)"
| "apply_batch ((k, Some v) # ops) es = apply_batch ops (AList.update k v es)"

definition db_Write :: "rocks_db_t \<Rightarrow> WriteOptions \<Rightarrow> WriteBatch \<Rightarrow> rocks_status_t \<times> rocks_db_t" where
  "db_Write rdb options batch =
     (if health rdb \<noteq> Ok then (health rdb, rdb)
      else if \<not> list_all (\<lambda>((f, key), v). is_family rdb f) batch then (InvalidArgument, rdb)
      else (Ok, rdb\<lparr>entries := apply_batch batch (entries rdb)\<rparr>))"

text \<open>
  An iterator is the list of the entries still ahead of it, in the comparator's order;
  \<^verbatim>\<open>Seek(target)\<close> moves to the first entry whose key is not below \<open>target\<close>,
  \<^verbatim>\<open>Valid()\<close> holds while the list is not empty and \<^verbatim>\<open>Next()\<close> drops its head.
\<close>

type_synonym rocks_iter_t = "(slice \<times> slice) list"

definition iterator_over :: "rocks_entries_t \<Rightarrow> nat \<Rightarrow> rocks_iter_t" where
  "iterator_over es f = sort_key fst (map (\<lambda>((g, key), v). (key, v)) (filter (\<lambda>((g, key), v). g = f) es))"

definition Seek :: "rocks_iter_t \<Rightarrow> slice \<Rightarrow> rocks_iter_t" where
  "Seek it target = dropWhile (\<lambda>(key, v). key < target) it"

definition db_NewIterator :: "rocks_db_t \<Rightarrow> ReadOptions \<Rightarrow> nat \<Rightarrow> rocks_iter_t" where
  "db_NewIterator rdb options f =
     (if health rdb \<noteq> Ok then [] else iterator_over (visible options rdb) f)"

text \<open>
  \<^verbatim>\<open>CreateColumnFamily\<close> refuses a name that is taken; otherwise it adds the family and
  returns a new handle for it. \<^verbatim>\<open>DestroyColumnFamilyHandle\<close> deletes the handle object
  and nothing else: the family and its entries stay (dropping them is
  \<^verbatim>\<open>DropColumnFamily\<close>, which the driver never calls). The engine's own default handle
  cannot be destroyed.
\<close>

definition fresh :: "nat list \<Rightarrow> nat" where
  "fresh xs = Suc (fold max xs 0)"

definition CreateColumnFamily :: "rocks_db_t \<Rightarrow> string \<Rightarrow> rocks_status_t \<times> rocks_db_t \<times> rocks_col_ptr_t" where
  "CreateColumnFamily rdb name =
     (if health rdb \<noteq> Ok then (health rdb, rdb, None)
      else if name \<in> fst ` set (families rdb) then (InvalidArgument, rdb, None)
      else let f = fresh (map snd (families rdb)); h = fresh (map fst (handles rdb))
           in (Ok, rdb\<lparr>families := families rdb @ [(name, f)], handles := handles rdb @ [(h, f)]\<rparr>, Some h))"

definition DestroyColumnFamilyHandle :: "rocks_db_t \<Rightarrow> nat \<Rightarrow> rocks_status_t \<times> rocks_db_t" where
  "DestroyColumnFamilyHandle rdb h =
     (if h = DefaultColumnFamily then (InvalidArgument, rdb)
      else (Ok, rdb\<lparr>handles := AList.delete h (handles rdb)\<rparr>))"

subsection \<open>Transactions\<close>

text \<open>
  A \<^verbatim>\<open>rocksdb::Transaction\<close>: the snapshot taken when it began
  (\<^verbatim>\<open>set_snapshot = true\<close>) and its own write batch. Its reads see its own writes first
  and the data base (at the snapshot of the read options, when one is set) behind them.
\<close>

record rocks_txn_t =
  txn_snapshot :: rocks_entries_t
  txn_batch :: WriteBatch

definition GetSnapshot :: "rocks_txn_t \<Rightarrow> rocks_entries_t" where
  "GetSnapshot txn = txn_snapshot txn"

definition txn_Get :: "rocks_txn_t \<Rightarrow> rocks_db_t \<Rightarrow> ReadOptions \<Rightarrow> nat \<Rightarrow> slice \<Rightarrow> rocks_status_t \<times> slice" where
  "txn_Get txn rdb options f key =
     (if health rdb \<noteq> Ok then (health rdb, [])
      else if \<not> is_family rdb f then (InvalidArgument, [])
      else case map_of (apply_batch (txn_batch txn) (visible options rdb)) (f, key) of
             None \<Rightarrow> (NotFound, [])
           | Some v \<Rightarrow> (Ok, v))"

definition txn_MultiGet ::
  "rocks_txn_t \<Rightarrow> rocks_db_t \<Rightarrow> ReadOptions \<Rightarrow> nat list \<Rightarrow> slice list \<Rightarrow> rocks_status_t list \<times> slice list" where
  "txn_MultiGet txn rdb options fs keys =
     (let got = map (\<lambda>(f, key). txn_Get txn rdb options f key) (zip fs keys)
      in (map fst got, map snd got))"

definition txn_Put :: "rocks_txn_t \<Rightarrow> rocks_db_t \<Rightarrow> nat \<Rightarrow> slice \<Rightarrow> slice \<Rightarrow> rocks_status_t \<times> rocks_txn_t" where
  "txn_Put txn rdb f key v =
     (if health rdb \<noteq> Ok then (health rdb, txn)
      else if \<not> is_family rdb f then (InvalidArgument, txn)
      else (Ok, txn\<lparr>txn_batch := txn_batch txn @ [((f, key), Some v)]\<rparr>))"

definition txn_Delete :: "rocks_txn_t \<Rightarrow> rocks_db_t \<Rightarrow> nat \<Rightarrow> slice \<Rightarrow> rocks_status_t \<times> rocks_txn_t" where
  "txn_Delete txn rdb f key =
     (if health rdb \<noteq> Ok then (health rdb, txn)
      else if \<not> is_family rdb f then (InvalidArgument, txn)
      else (Ok, txn\<lparr>txn_batch := txn_batch txn @ [((f, key), None)]\<rparr>))"

definition txn_SingleDelete :: "rocks_txn_t \<Rightarrow> rocks_db_t \<Rightarrow> nat \<Rightarrow> slice \<Rightarrow> rocks_status_t \<times> rocks_txn_t" where
  "txn_SingleDelete txn rdb f key = txn_Delete txn rdb f key"

definition txn_GetIterator :: "rocks_txn_t \<Rightarrow> rocks_db_t \<Rightarrow> ReadOptions \<Rightarrow> nat \<Rightarrow> rocks_iter_t" where
  "txn_GetIterator txn rdb options f =
     (if health rdb \<noteq> Ok then []
      else iterator_over (apply_batch (txn_batch txn) (visible options rdb)) f)"

section \<open>The driver (src/backend\_rocksdb.cpp)\<close>

text \<open>
  \<^verbatim>\<open>struct rocks_db_wrapper_t { std::vector<rocks_col_ptr_t> columns; std::unique_ptr<rocks_db_t> db; }\<close>.
  Both the handles in \<open>columns\<close> and \<open>db\<close> can be null.
\<close>

record rocks_db_wrapper_t =
  columns :: "rocks_col_ptr_t list"
  db :: "rocks_db_t option"

text \<open>
  The engine call made on the column of a task,
  \<^verbatim>\<open>task.col ? reinterpret_cast<rocks_col_ptr_t>(task.col) : db_wrapper->db->DefaultColumnFamily()\<close>,
  dereferences that handle: a handle that is not live is a dangling pointer.
\<close>

definition column_family :: "rocks_db_t \<Rightarrow> ukv_collection_t \<Rightarrow> undefined_behaviour + nat" where
  "column_family rdb col =
     (case family_of rdb (case col of None \<Rightarrow> DefaultColumnFamily | Some h \<Rightarrow> h) of
        None \<Rightarrow> Inl Dangling_Pointer
      | Some f \<Rightarrow> Inr f)"

definition export_error :: "rocks_status_t \<Rightarrow> ukv_error_t \<Rightarrow> bool \<times> ukv_error_t" where
  "export_error status c_error =
     (if status = Ok then (False, c_error)
      else if status = Corruption then (True, Some ''Failure: DB Corrpution'')
      else if status = IOError then (True, Some ''Failure: IO  Error'')
      else if status = InvalidArgument then (True, Some ''Failure: Invalid Argument'')
      else (True, Some ''Failure''))"

subsection \<open>Opening\<close>

text \<open>
  \<^verbatim>\<open>ukv_open\<close> receives from \<^verbatim>\<open>rocks_db_t::Open\<close> a status, the handles of the column
  families and the data base pointer (null when the engine could not open); that answer of
  the engine is the input \<open>opened\<close>. The wrapper is allocated first and stored into
  \<^verbatim>\<open>*c_db\<close> last, after the status has been tested.
\<close>

record rocks_open_t =
  open_status :: rocks_status_t
  open_columns :: "rocks_col_ptr_t list"
  open_db :: "rocks_db_t option"

record open_result_t =
  o_db :: "rocks_db_wrapper_t option"
  o_error :: ukv_error_t

definition ukv_open :: "rocks_open_t \<Rightarrow> rocks_db_wrapper_t option \<Rightarrow> ukv_error_t \<Rightarrow> open_result_t" where
  "ukv_open opened c_db c_error =
     (let db_wrapper = \<lparr>columns = open_columns opened, db = open_db opened\<rparr>;
          c_error1 = (if open_status opened \<noteq> Ok then Some ''Open Error'' else c_error)
      in \<lparr>o_db = Some db_wrapper, o_error = c_error1\<rparr>)"

subsection \<open>Writing\<close>

text \<open>
  Modelled from the spec: \<^verbatim>\<open>write_task_t\<close>, \<^verbatim>\<open>is_deleted\<close> and \<^verbatim>\<open>view\<close> are declared
  in helpers.hpp, which is not among the sources. Section 4.5: a write task carries the
  collection, the key and a value pointer, offset and length; a null value pointer encodes
  deletion. The pointer is the byte string it points at (\<open>None\<close> when null), and the view is
  the \<open>length\<close> bytes that start \<open>offset\<close> bytes into it. The strided arrays of the ABI are
  taken decoded, as the list of the tasks \<^verbatim>\<open>tasks[0]\<close>, \<^verbatim>\<open>tasks[1]\<close>, ...
\<close>

record write_task_t =
  wt_col :: ukv_collection_t
  wt_key :: ukv_key_t
  wt_begin :: "slice option"
  wt_offset :: ukv_val_len_t
  wt_length :: ukv_val_len_t

definition is_deleted :: "write_task_t \<Rightarrow> bool" where
  "is_deleted task = (wt_begin task = None)"

definition view :: "write_task_t \<Rightarrow> slice" where
  "view task =
     (case wt_begin task of
        None \<Rightarrow> []
      | Some bytes \<Rightarrow> take (unat (wt_length task)) (drop (unat (wt_offset task)) bytes))"

record write_result_t =
  w_db :: rocks_db_wrapper_t
  w_txn :: "rocks_txn_t option"
  w_error :: ukv_error_t

definition write_one ::
  "rocks_db_wrapper_t \<Rightarrow> rocks_txn_t option \<Rightarrow> write_task_t list \<Rightarrow> ukv_size_t \<Rightarrow> WriteOptions \<Rightarrow>
   ukv_error_t \<Rightarrow> undefined_behaviour + write_result_t" where
  "write_one db_wrapper txn tasks n options c_error =
     (case tasks of
        [] \<Rightarrow> Inl Out_Of_Bounds
      | task # _ \<Rightarrow>
     (case db db_wrapper of
        None \<Rightarrow> Inl Null_Dereference
      | Some rdb \<Rightarrow>
     (case column_family rdb (wt_col task) of
        Inl u \<Rightarrow> Inl u
      | Inr col \<Rightarrow>
          let key = to_slice (wt_key task) in
          (case txn of
             Some t \<Rightarrow>
               let (status, t1) = (if is_deleted task then txn_SingleDelete t rdb col key
                                   else txn_Put t rdb col key (view task))
               in Inr \<lparr>w_db = db_wrapper, w_txn = Some t1, w_error = snd (export_error status c_error)\<rparr>
           | None \<Rightarrow>
               let (status, rdb1) = (if is_deleted task then db_SingleDelete rdb options col key
                                     else db_Put rdb options col key (view task))
               in Inr \<lparr>w_db = db_wrapper\<lparr>db := Some rdb1\<rparr>, w_txn = None,
                       w_error = snd (export_error status c_error)\<rparr>))))"

text \<open>The two loops of \<^verbatim>\<open>write_many\<close> over \<^verbatim>\<open>tasks[0 .. n)\<close>. In a transaction the
  status of each \<^verbatim>\<open>Delete\<close> and \<^verbatim>\<open>Put\<close> is dropped.\<close>

fun txn_write_each ::
  "rocks_db_t \<Rightarrow> rocks_txn_t \<Rightarrow> write_task_t list \<Rightarrow> undefined_behaviour + rocks_txn_t" where
  "txn_write_each rdb t [] = Inr t"
| "txn_write_each rdb t (task # tasks) =
     (case column_family rdb (wt_col task) of
        Inl u \<Rightarrow> Inl u
      | Inr col \<Rightarrow>
          let key = to_slice (wt_key task);
              (status, t1) = (if is_deleted task then txn_Delete t rdb col key
                              else txn_Put t rdb col key (view task))
          in txn_write_each rdb t1 tasks)"

fun batch_each ::
  "rocks_db_t \<Rightarrow> WriteBatch \<Rightarrow> write_task_t list \<Rightarrow> undefined_behaviour + WriteBatch" where
  "batch_each rdb batch [] = Inr batch"
| "batch_each rdb batch (task # tasks) =
     (case column_family rdb (wt_col task) of
        Inl u \<Rightarrow> Inl u
      | Inr col \<Rightarrow>
          let key = to_slice (wt_key task)
          in batch_each rdb
               (batch @ [((col, key), if is_deleted task then None else Some (view task))]) tasks)"

definition write_many ::
  "rocks_db_wrapper_t \<Rightarrow> rocks_txn_t option \<Rightarrow> write_task_t list \<Rightarrow> ukv_size_t \<Rightarrow> WriteOptions \<Rightarrow>
   ukv_error_t \<Rightarrow> undefined_behaviour + write_result_t" where
  "write_many db_wrapper txn tasks n options c_error =
     (if length tasks < n then Inl Out_Of_Bounds
      else
     (case db db_wrapper of
        None \<Rightarrow> (if txn \<noteq> None \<and> n = 0
                 then Inr \<lparr>w_db = db_wrapper, w_txn = txn, w_error = c_error\<rparr>
                 else Inl Null_Dereference)
      | Some rdb \<Rightarrow>
     (case txn of
        Some t \<Rightarrow>
          (case txn_write_each rdb t (take n tasks) of
             Inl u \<Rightarrow> Inl u
           | Inr t1 \<Rightarrow> Inr \<lparr>w_db = db_wrapper, w_txn = Some t1, w_error = c_error\<rparr>)
      | None \<Rightarrow>
          (case batch_each rdb [] (take n tasks) of
             Inl u \<Rightarrow> Inl u
           | Inr batch \<Rightarrow>
               let (status, rdb1) = db_Write rdb options batch
               in Inr \<lparr>w_db = db_wrapper\<lparr>db := Some rdb1\<rparr>, w_txn = None,
                       w_error = snd (export_error status c_error)\<rparr>))))"

text \<open>
  \<^verbatim>\<open>ukv_write\<close>: the engine of the model raises no C++ exception, so the
  \<^verbatim>\<open>catch (...)\<close> that sets "Write Failure" has no case here.
\<close>

definition ukv_write ::
  "ukv_option_masks_t \<Rightarrow> rocks_db_wrapper_t \<Rightarrow> rocks_txn_t option \<Rightarrow> ukv_size_t \<Rightarrow> write_task_t list \<Rightarrow>
   ukv_options_t \<Rightarrow> ukv_error_t \<Rightarrow> undefined_behaviour + write_result_t" where
  "ukv_write K c_db c_txn c_tasks_count tasks c_options c_error =
     (let options = \<lparr>sync = (c_options AND ukv_option_write_flush_k K \<noteq> 0)\<rparr>
      in (if c_tasks_count = 1 then write_one else write_many)
           c_db c_txn tasks c_tasks_count options c_error)"

subsection \<open>Reading\<close>

text \<open>
  Modelled from the spec: \<^verbatim>\<open>stl_arena_t\<close>, \<^verbatim>\<open>cast_arena\<close>, \<^verbatim>\<open>prepare_memory\<close> and
  \<^verbatim>\<open>read_task_t\<close> are declared in helpers.hpp, which is not among the sources. Section 3:
  the arena is a request-scoped buffer that holds the marshalled results, is created on
  first use (the caller passes null) and grown on demand. \<^verbatim>\<open>prepare_memory\<close> gives the
  output tape the requested size; allocation does not fail in the model (neither does
  \<^verbatim>\<open>make_value\<close>, whose \<^verbatim>\<open>PinnableSlice\<close> is the value \<^verbatim>\<open>Get\<close> returns). A
  pointer into the tape is its offset from the start of the tape.
\<close>

record stl_arena_t =
  output_tape :: "byte_t list"

record read_task_t =
  rt_col :: ukv_collection_t
  rt_key :: ukv_key_t

definition cast_arena :: "stl_arena_t option \<Rightarrow> stl_arena_t" where
  "cast_arena c_arena = (case c_arena of None \<Rightarrow> \<lparr>output_tape = []\<rparr> | Some arena \<Rightarrow> arena)"

definition prepare_memory :: "byte_t list \<Rightarrow> nat \<Rightarrow> byte_t list" where
  "prepare_memory tape bytes_count = take bytes_count tape @ replicate (bytes_count - length tape) 0"

definition sizeof_ukv_size_t :: nat where
  "sizeof_ukv_size_t = 8"

definition sizeof_ukv_val_len_t :: nat where
  "sizeof_ukv_val_len_t = 4"

definition sizeof_ukv_key_t :: nat where
  "sizeof_ukv_key_t = 8"

record read_result_t =
  r_found_lengths :: "nat option"
  r_found_values :: "nat option"
  r_arena :: "stl_arena_t option"
  r_error :: ukv_error_t

definition read_one ::
  "rocks_db_wrapper_t \<Rightarrow> rocks_txn_t option \<Rightarrow> read_task_t list \<Rightarrow> ukv_size_t \<Rightarrow> ReadOptions \<Rightarrow>
   nat option \<Rightarrow> nat option \<Rightarrow> stl_arena_t \<Rightarrow> ukv_error_t \<Rightarrow> undefined_behaviour + read_result_t" where
  "read_one db_wrapper txn tasks n options c_found_lengths c_found_values arena c_error =
     (case tasks of
        [] \<Rightarrow> Inl Out_Of_Bounds
      | task # _ \<Rightarrow>
     (case db db_wrapper of
        None \<Rightarrow> Inl Null_Dereference
      | Some rdb \<Rightarrow>
     (case column_family rdb (rt_col task) of
        Inl u \<Rightarrow> Inl u
      | Inr col \<Rightarrow>
          let key = to_slice (rt_key task);
              (status, val) = (case txn of
                                 Some t \<Rightarrow> txn_Get t rdb options col key
                               | None \<Rightarrow> db_Get rdb options col key);
              (failed, c_error1) = (if status \<noteq> NotFound then export_error status c_error
                                    else (False, c_error))
          in if failed
             then Inr \<lparr>r_found_lengths = c_found_lengths, r_found_values = c_found_values,
                       r_arena = Some arena, r_error = c_error1\<rparr>
             else
               let bytes_in_value = length val;
                   exported_len = (if status = NotFound then unat ukv_val_len_missing_k
                                   else bytes_in_value);
                   tape = prepare_memory (output_tape arena) (sizeof_ukv_size_t + bytes_in_value)
               in if c_error1 \<noteq> None
                  then Inr \<lparr>r_found_lengths = c_found_lengths, r_found_values = c_found_values,
                            r_arena = Some (arena\<lparr>output_tape := tape\<rparr>), r_error = c_error1\<rparr>
                  else
                    let tape1 = memcpy tape 0 (le_bytes sizeof_ukv_size_t exported_len);
                        tape2 = memcpy tape1 sizeof_ukv_size_t val
                    in Inr \<lparr>r_found_lengths = Some 0, r_found_values = Some sizeof_ukv_size_t,
                            r_arena = Some (arena\<lparr>output_tape := tape2\<rparr>), r_error = c_error1\<rparr>)))"

text \<open>The loops of \<^verbatim>\<open>read_many\<close>: resolving the columns of \<^verbatim>\<open>tasks[0 .. n)\<close>, and
  step 3, which walks \<^verbatim>\<open>vals\<close> with the index \<open>i\<close> and the write position
  \<^verbatim>\<open>exported_bytes\<close>.\<close>

fun read_columns :: "rocks_db_t \<Rightarrow> read_task_t list \<Rightarrow> undefined_behaviour + nat list" where
  "read_columns rdb [] = Inr []"
| "read_columns rdb (task # tasks) =
     (case column_family rdb (rt_col task) of
        Inl u \<Rightarrow> Inl u
      | Inr col \<Rightarrow>
          (case read_columns rdb tasks of
             Inl u \<Rightarrow> Inl u
           | Inr cols \<Rightarrow> Inr (col # cols)))"

fun export_values :: "slice list \<Rightarrow> nat \<Rightarrow> nat \<Rightarrow> byte_t list \<Rightarrow> byte_t list" where
  "export_values [] i exported_bytes tape = tape"
| "export_values (val # vals) i exported_bytes tape =
     (let bytes_in_value = length val
      in if bytes_in_value \<noteq> 0
         then export_values vals (Suc i) (exported_bytes + bytes_in_value)
                (memcpy (memcpy tape exported_bytes val) (sizeof_ukv_val_len_t * i)
                   (le_bytes sizeof_ukv_val_len_t bytes_in_value))
         else export_values vals (Suc i) exported_bytes
                (memcpy tape (sizeof_ukv_val_len_t * i)
                   (le_bytes sizeof_ukv_val_len_t (unat ukv_val_len_missing_k))))"

definition read_many ::
  "rocks_db_wrapper_t \<Rightarrow> rocks_txn_t option \<Rightarrow> read_task_t list \<Rightarrow> ukv_size_t \<Rightarrow> ReadOptions \<Rightarrow>
   nat option \<Rightarrow> nat option \<Rightarrow> stl_arena_t \<Rightarrow> ukv_error_t \<Rightarrow> undefined_behaviour + read_result_t" where
  "read_many db_wrapper txn tasks n options c_found_lengths c_found_values arena c_error =
     (if length tasks < n then Inl Out_Of_Bounds
      else
     (case db db_wrapper of
        None \<Rightarrow> Inl Null_Dereference
      | Some rdb \<Rightarrow>
     (case read_columns rdb (take n tasks) of
        Inl u \<Rightarrow> Inl u
      | Inr cols \<Rightarrow>
          let keys = map (\<lambda>task. to_slice (rt_key task)) (take n tasks);
              (statuses, vals) = (case txn of
                                    Some t \<Rightarrow> txn_MultiGet t rdb options cols keys
                                  | None \<Rightarrow> db_MultiGet rdb options cols keys);
              total_bytes = sizeof_ukv_val_len_t * n + sum_list (map length vals);
              tape = prepare_memory (output_tape arena) total_bytes
          in if c_error \<noteq> None
             then Inr \<lparr>r_found_lengths = c_found_lengths, r_found_values = c_found_values,
                       r_arena = Some (arena\<lparr>output_tape := tape\<rparr>), r_error = c_error\<rparr>
             else
               let exported_bytes = sizeof_ukv_val_len_t * n;
                   tape1 = export_values vals 0 exported_bytes tape
               in Inr \<lparr>r_found_lengths = Some 0, r_found_values = Some exported_bytes,
                       r_arena = Some (arena\<lparr>output_tape := tape1\<rparr>), r_error = c_error\<rparr>)))"

text \<open>
  \<^verbatim>\<open>ukv_read\<close>. Inside a transaction the read options carry the transaction's snapshot.
  As in \<^verbatim>\<open>ukv_write\<close>, the \<^verbatim>\<open>catch (...)\<close> that sets "Read Failure" has no
  case here.
\<close>

definition ukv_read ::
  "ukv_option_masks_t \<Rightarrow> rocks_db_wrapper_t \<Rightarrow> rocks_txn_t option \<Rightarrow> ukv_size_t \<Rightarrow> read_task_t list \<Rightarrow>
   ukv_options_t \<Rightarrow> nat option \<Rightarrow> nat option \<Rightarrow> stl_arena_t option \<Rightarrow> ukv_error_t \<Rightarrow>
   undefined_behaviour + read_result_t" where
  "ukv_read K c_db c_txn c_tasks_count tasks c_options c_found_lengths c_found_values c_arena c_error =
     (if c_txn \<noteq> None \<and> c_options AND ukv_option_read_transparent_k K = 0
      then Inr \<lparr>r_found_lengths = c_found_lengths, r_found_values = c_found_values,
                r_arena = c_arena, r_error = Some ''RocksDB only supports transparent reads!''\<rparr>
      else
        let arena = cast_arena c_arena;
            options = \<lparr>snapshot = (case c_txn of None \<Rightarrow> None | Some t \<Rightarrow> Some (GetSnapshot t)),
                       fill_cache = True\<rparr>
        in (if c_tasks_count = 1 then read_one else read_many)
             c_db c_txn tasks c_tasks_count options c_found_lengths c_found_values arena c_error)"

text \<open>
  What the caller sees through the two pointers a read returns: the \<open>i\<close>-th length, a
  \<^verbatim>\<open>ukv_val_len_t\<close> read at \<^verbatim>\<open>c_found_lengths[i]\<close>, and \<open>n\<close> bytes read \<open>at\<close> bytes
  after \<^verbatim>\<open>c_found_values\<close>. Nothing is seen through a pointer that was not set.
\<close>

definition found_length :: "read_result_t \<Rightarrow> nat \<Rightarrow> ukv_val_len_t option" where
  "found_length r i =
     (case (r_found_lengths r, r_arena r) of
        (Some p, Some arena) \<Rightarrow>
          Some (of_nat (le_value (take sizeof_ukv_val_len_t
                                   (drop (p + sizeof_ukv_val_len_t * i) (output_tape arena)))))
      | _ \<Rightarrow> None)"

definition found_bytes :: "read_result_t \<Rightarrow> nat \<Rightarrow> nat \<Rightarrow> slice option" where
  "found_bytes r at n =
     (case (r_found_values r, r_arena r) of
        (Some p, Some arena) \<Rightarrow> Some (take n (drop (p + at) (output_tape arena)))
      | _ \<Rightarrow> None)"

subsection \<open>Scanning\<close>

text \<open>
  Modelled from the spec: \<^verbatim>\<open>scan_task_t\<close> is declared in helpers.hpp, which is not among
  the sources. Section 4.6: a scan task is (collection, min\_key, max\_count); the source
  reads the count as \<^verbatim>\<open>task.length\<close>.
\<close>

record scan_task_t =
  st_col :: ukv_collection_t
  st_min_key :: ukv_key_t
  st_length :: ukv_size_t

record scan_result_t =
  s_found_keys :: "nat option"
  s_found_lengths :: "nat option"
  s_arena :: "stl_arena_t option"
  s_error :: ukv_error_t

text \<open>
  The inner loop
  \<^verbatim>\<open>for (; it->Valid() && i != task.length; i++, it->Next())\<close>
  with its body \<^verbatim>\<open>memcpy(&scanned_keys[i], it->key().data(), sizeof(ukv_key_t)); scanned_lens[i] = (ukv_val_len_t) it->value().size();\<close>.
  It counts with the variable \<open>i\<close> of the loop over the tasks. The tape holds \<open>n\<close> keys
  followed by \<open>n\<close> lengths (\<open>n\<close> is \<^verbatim>\<open>c_min_tasks_count\<close>), so \<^verbatim>\<open>scanned_lens[i]\<close> with
  \<open>n \<le> i\<close> lies past its end. The function returns the index the loop stops at.
\<close>

fun scan_entries ::
  "nat \<Rightarrow> rocks_iter_t \<Rightarrow> nat \<Rightarrow> nat \<Rightarrow> byte_t list \<Rightarrow> undefined_behaviour + (nat \<times> byte_t list)" where
  "scan_entries n [] i task_length tape = Inr (i, tape)"
| "scan_entries n ((key, val) # it) i task_length tape =
     (if i = task_length then Inr (i, tape)
      else if n \<le> i then Inl Out_Of_Bounds
      else scan_entries n it (Suc i) task_length
             (memcpy (memcpy tape (sizeof_ukv_key_t * i) (take sizeof_ukv_key_t key))
                (sizeof_ukv_key_t * n + sizeof_ukv_val_len_t * i)
                (le_bytes sizeof_ukv_val_len_t (length val))))"

text \<open>
  The outer loop \<^verbatim>\<open>for (ukv_size_t i = 0; i != c_min_tasks_count; ++i)\<close>: it reads
  \<^verbatim>\<open>tasks[i]\<close>, opens an iterator on the task's column, seeks \<^verbatim>\<open>task.min_key\<close>, runs the
  inner loop and goes on from the index the inner loop left, plus one. The options of a scan
  carry no snapshot, and creating an iterator raises no exception in the model.
\<close>

function scan_tasks ::
  "rocks_db_t \<Rightarrow> rocks_txn_t option \<Rightarrow> ReadOptions \<Rightarrow> scan_task_t list \<Rightarrow> nat \<Rightarrow> nat \<Rightarrow> byte_t list \<Rightarrow>
   undefined_behaviour + byte_t list" where
  "scan_tasks rdb txn options tasks n i tape =
     (if i = n then Inr tape
      else if length tasks \<le> i then Inl Out_Of_Bounds
      else
        (case column_family rdb (st_col (tasks ! i)) of
           Inl u \<Rightarrow> Inl u
         | Inr col \<Rightarrow>
             (case scan_entries n
                     (Seek (case txn of
                              Some t \<Rightarrow> txn_GetIterator t rdb options col
                            | None \<Rightarrow> db_NewIterator rdb options col)
                        (to_slice (st_min_key (tasks ! i))))
                     i (st_length (tasks ! i)) tape of
                Inl u \<Rightarrow> Inl u
              | Inr (j, tape1) \<Rightarrow> scan_tasks rdb txn options tasks n (Suc j) tape1)))"
  by pat_completeness auto
termination
proof (relation "measure (\<lambda>(rdb, txn, options, tasks, n, i, tape). length tasks - i)")
  show "wf (measure (\<lambda>(rdb, txn, options, tasks, n, i, tape). length tasks - i))"
    by simp
next
  fix rdb :: rocks_db_t and txn :: "rocks_txn_t option" and options :: ReadOptions
    and tasks :: "scan_task_t list" and n i :: nat and tape :: "byte_t list"
    and col :: nat and x :: "nat \<times> byte_t list" and j :: nat and tape1 :: "byte_t list"
  have index: "scan_entries n it i0 len tp = Inr (j0, tp1) \<Longrightarrow> i0 \<le> j0"
    for it i0 len tp j0 tp1
  proof (induction it arbitrary: i0 tp)
    case Nil
    then show ?case by simp
  next
    case (Cons e it)
    obtain key val where e: "e = (key, val)" by (cases e)
    show ?case
    proof (cases "i0 = len")
      case True
      with Cons.prems e show ?thesis by simp
    next
      case False
      with Cons.prems e have "\<not> n \<le> i0" by (auto split: if_splits)
      with Cons.prems e False have "Suc i0 \<le> j0"
        by (auto dest: Cons.IH)
      then show ?thesis by simp
    qed
  qed
  assume "\<not> length tasks \<le> i"
    and "scan_entries n
           (Seek (case txn of None \<Rightarrow> db_NewIterator rdb options col
                  | Some t \<Rightarrow> txn_GetIterator t rdb options col)
              (to_slice (st_min_key (tasks ! i))))
           i (st_length (tasks ! i)) tape = Inr x"
    and "(j, tape1) = x"
  then have "i \<le> j" and "i < length tasks"
    by (auto dest: index)
  then show "((rdb, txn, options, tasks, n, Suc j, tape1), (rdb, txn, options, tasks, n, i, tape))
             \<in> measure (\<lambda>(rdb, txn, options, tasks, n, i, tape). length tasks - i)"
    by simp
qed

definition ukv_scan ::
  "ukv_option_masks_t \<Rightarrow> rocks_db_wrapper_t \<Rightarrow> rocks_txn_t option \<Rightarrow> ukv_size_t \<Rightarrow> scan_task_t list \<Rightarrow>
   ukv_options_t \<Rightarrow> nat option \<Rightarrow> nat option \<Rightarrow> stl_arena_t option \<Rightarrow> ukv_error_t \<Rightarrow>
   undefined_behaviour + scan_result_t" where
  "ukv_scan K c_db c_txn c_min_tasks_count tasks c_options c_found_keys c_found_lengths c_arena c_error =
     (if c_txn \<noteq> None \<and> c_options AND ukv_option_read_transparent_k K = 0
      then Inr \<lparr>s_found_keys = c_found_keys, s_found_lengths = c_found_lengths,
                s_arena = c_arena, s_error = Some ''RocksDB only supports transparent reads!''\<rparr>
      else
        let arena = cast_arena c_arena
        in if c_error \<noteq> None
           then Inr \<lparr>s_found_keys = c_found_keys, s_found_lengths = c_found_lengths,
                     s_arena = Some arena, s_error = c_error\<rparr>
           else
             let options = \<lparr>snapshot = None, fill_cache = False\<rparr>;
                 keys_bytes = sizeof_ukv_key_t * c_min_tasks_count;
                 val_len_bytes = sizeof_ukv_val_len_t * c_min_tasks_count;
                 tape = prepare_memory (output_tape arena) (keys_bytes + val_len_bytes)
             in if c_min_tasks_count = 0
                then Inr \<lparr>s_found_keys = Some 0, s_found_lengths = Some keys_bytes,
                          s_arena = Some (arena\<lparr>output_tape := tape\<rparr>), s_error = c_error\<rparr>
                else
                  (case db c_db of
                     None \<Rightarrow> Inl Null_Dereference
                   | Some rdb \<Rightarrow>
                       (case scan_tasks rdb c_txn options tasks c_min_tasks_count 0 tape of
                          Inl u \<Rightarrow> Inl u
                        | Inr tape1 \<Rightarrow>
                            Inr \<lparr>s_found_keys = Some 0, s_found_lengths = Some keys_bytes,
                                 s_arena = Some (arena\<lparr>output_tape := tape1\<rparr>), s_error = c_error\<rparr>)))"

text \<open>The \<open>i\<close>-th key and length the caller reads through the pointers a scan returns.\<close>

definition scanned_key :: "scan_result_t \<Rightarrow> nat \<Rightarrow> ukv_key_t option" where
  "scanned_key r i =
     (case (s_found_keys r, s_arena r) of
        (Some p, Some arena) \<Rightarrow>
          Some (of_nat (le_value (take sizeof_ukv_key_t
                                   (drop (p + sizeof_ukv_key_t * i) (output_tape arena)))))
      | _ \<Rightarrow> None)"

definition scanned_length :: "scan_result_t \<Rightarrow> nat \<Rightarrow> ukv_val_len_t option" where
  "scanned_length r i =
     (case (s_found_lengths r, s_arena r) of
        (Some p, Some arena) \<Rightarrow>
          Some (of_nat (le_value (take sizeof_ukv_val_len_t
                                   (drop (p + sizeof_ukv_val_len_t * i) (output_tape arena)))))
      | _ \<Rightarrow> None)"

subsection \<open>Collections\<close>

record collection_result_t =
  c_db1 :: rocks_db_wrapper_t
  c_col1 :: ukv_collection_t
  c_error1 :: ukv_error_t

text \<open>
  The loop of \<^verbatim>\<open>ukv_collection_open\<close> over \<^verbatim>\<open>db_wrapper->columns\<close>: the first handle
  that is not null and whose family has the name asked for.
\<close>

fun find_column :: "rocks_db_t \<Rightarrow> string \<Rightarrow> rocks_col_ptr_t list \<Rightarrow> undefined_behaviour + rocks_col_ptr_t" where
  "find_column rdb name [] = Inr None"
| "find_column rdb name (None # rest) = find_column rdb name rest"
| "find_column rdb name (Some h # rest) =
     (case GetName rdb h of
        None \<Rightarrow> Inl Dangling_Pointer
      | Some handle_name \<Rightarrow>
          if handle_name = name then Inr (Some h) else find_column rdb name rest)"

text \<open>
  \<^verbatim>\<open>ukv_collection_open\<close>. After \<^verbatim>\<open>CreateColumnFamily\<close> the source stores the handle
  under \<^verbatim>\<open>if (export_error(status, c_error))\<close>, that is when the creation failed.
\<close>

definition ukv_collection_open ::
  "rocks_db_wrapper_t \<Rightarrow> string option \<Rightarrow> ukv_collection_t \<Rightarrow> ukv_error_t \<Rightarrow>
   undefined_behaviour + collection_result_t" where
  "ukv_collection_open c_db c_col_name c_col c_error =
     (case db c_db of
        None \<Rightarrow> Inl Null_Dereference
      | Some rdb \<Rightarrow>
     (case c_col_name of
        None \<Rightarrow> Inr \<lparr>c_db1 = c_db, c_col1 = Some DefaultColumnFamily, c_error1 = c_error\<rparr>
      | Some name \<Rightarrow>
     (case find_column rdb name (columns c_db) of
        Inl u \<Rightarrow> Inl u
      | Inr (Some h) \<Rightarrow> Inr \<lparr>c_db1 = c_db, c_col1 = Some h, c_error1 = c_error\<rparr>
      | Inr None \<Rightarrow>
          let (status, rdb1, col) = CreateColumnFamily rdb name;
              (failed, c_error2) = export_error status c_error
          in if failed
             then Inr \<lparr>c_db1 = c_db\<lparr>columns := columns c_db @ [col], db := Some rdb1\<rparr>,
                       c_col1 = col, c_error1 = c_error2\<rparr>
             else Inr \<lparr>c_db1 = c_db\<lparr>db := Some rdb1\<rparr>, c_col1 = c_col, c_error1 = c_error2\<rparr>)))"

text \<open>
  The loop of \<^verbatim>\<open>ukv_collection_remove\<close>: \<^verbatim>\<open>c_col_name == handle->GetName()\<close> dereferences
  the handle and compares the C string with a \<^verbatim>\<open>std::string\<close>, which reads the characters
  \<^verbatim>\<open>c_col_name\<close> points at.
\<close>

fun remove_columns ::
  "rocks_db_t \<Rightarrow> string option \<Rightarrow> rocks_col_ptr_t list \<Rightarrow> ukv_error_t \<Rightarrow>
   undefined_behaviour + (rocks_db_t \<times> ukv_error_t)" where
  "remove_columns rdb c_col_name [] c_error = Inr (rdb, c_error)"
| "remove_columns rdb c_col_name (None # rest) c_error = Inl Null_Dereference"
| "remove_columns rdb c_col_name (Some h # rest) c_error =
     (case GetName rdb h of
        None \<Rightarrow> Inl Dangling_Pointer
      | Some handle_name \<Rightarrow>
          (case c_col_name of
             None \<Rightarrow> Inl Null_Dereference
           | Some name \<Rightarrow>
               if name = handle_name
               then
                 let (status, rdb1) = DestroyColumnFamilyHandle rdb h;
                     (failed, c_error2) = export_error status c_error
                 in if failed then Inr (rdb1, c_error2)
                    else remove_columns rdb1 c_col_name rest c_error2
               else remove_columns rdb c_col_name rest c_error))"

record remove_result_t =
  m_db :: rocks_db_wrapper_t
  m_error :: ukv_error_t

definition ukv_collection_remove ::
  "rocks_db_wrapper_t \<Rightarrow> string option \<Rightarrow> ukv_error_t \<Rightarrow> undefined_behaviour + remove_result_t" where
  "ukv_collection_remove c_db c_col_name c_error =
     (case db c_db of
        None \<Rightarrow> (if columns c_db = [] then Inr \<lparr>m_db = c_db, m_error = c_error\<rparr>
                 else Inl Null_Dereference)
      | Some rdb \<Rightarrow>
          (case remove_columns rdb c_col_name (columns c_db) c_error of
             Inl u \<Rightarrow> Inl u
           | Inr (rdb1, c_error2) \<Rightarrow> Inr \<lparr>m_db = c_db\<lparr>db := Some rdb1\<rparr>, m_error = c_error2\<rparr>))"

section \<open>Properties\<close>

subsection \<open>Tapes and byte order\<close>

lemma length_le_bytes: "length (le_bytes k v) = k"
  by (induction k arbitrary: v) simp_all

lemma le_value_le_bytes: "le_value (le_bytes k v) = v mod 256 ^ k"
proof (induction k arbitrary: v)
  case 0
  then show ?case by simp
next
  case (Suc k)
  have "unat (of_nat (v mod 256) :: byte_t) = v mod 256"
    by (simp add: unat_of_nat)
  then show ?case
    by (simp add: Suc mod_mult2_eq)
qed

lemma take_le_bytes: "m \<le> k \<Longrightarrow> take m (le_bytes k v) = le_bytes m v"
proof (induction m arbitrary: k v)
  case 0
  then show ?case by simp
next
  case (Suc m)
  then obtain k' where "k = Suc k'" by (cases k) auto
  with Suc show ?case by simp
qed

lemma memcpy_header_body:
  "length tape = length a + length b \<Longrightarrow> memcpy (memcpy tape 0 a) (length a) b = a @ b"
  by (simp add: memcpy_def)

lemma length_prepare_memory: "length (prepare_memory tape n) = n"
  by (simp add: prepare_memory_def)

lemma length_view: "length (view task) < 2 ^ 32"
proof -
  have "length (view task) \<le> unat (wt_length task)"
    by (simp add: view_def split: option.splits)
  moreover have "unat (wt_length task) < 2 ^ 32"
    using unsigned_less [of "wt_length task"] by simp
  ultimately show ?thesis by simp
qed

lemma of_nat_le_value_length:
  "(of_nat (le_value (take sizeof_ukv_val_len_t (le_bytes sizeof_ukv_size_t n @ v))) :: ukv_val_len_t) = of_nat n"
proof -
  have "take sizeof_ukv_val_len_t (le_bytes sizeof_ukv_size_t n @ v) = le_bytes 4 n"
    by (simp add: sizeof_ukv_val_len_t_def sizeof_ukv_size_t_def length_le_bytes take_le_bytes)
  moreover have "(of_nat (n mod 256 ^ 4) :: ukv_val_len_t) = of_nat n"
    by (simp add: word_of_nat_eq_iff take_bit_eq_mod)
  ultimately show ?thesis
    by (simp add: le_value_le_bytes)
qed

lemma read_one_outside_transaction:
  assumes "db c_db = Some rdb"
    and "column_family rdb col = Inr f"
    and "db_Get rdb options f (to_slice key) = (status, v)"
    and "status = Ok \<or> status = NotFound"
  shows "read_one c_db None [\<lparr>rt_col = col, rt_key = key\<rparr>] n options fl fv arena None =
           Inr \<lparr>r_found_lengths = Some 0, r_found_values = Some sizeof_ukv_size_t,
                r_arena = Some (arena\<lparr>output_tape :=
                  le_bytes sizeof_ukv_size_t
                    (if status = NotFound then unat ukv_val_len_missing_k else length v) @ v\<rparr>),
                r_error = None\<rparr>"
proof -
  let ?len = "if status = NotFound then unat ukv_val_len_missing_k else length v"
  let ?tape = "prepare_memory (output_tape arena) (sizeof_ukv_size_t + length v)"
  have "length ?tape = length (le_bytes sizeof_ukv_size_t ?len) + length v"
    by (simp add: length_prepare_memory length_le_bytes)
  then have "memcpy (memcpy ?tape 0 (le_bytes sizeof_ukv_size_t ?len))
               (length (le_bytes sizeof_ukv_size_t ?len)) v = le_bytes sizeof_ukv_size_t ?len @ v"
    by (rule memcpy_header_body)
  then have tape: "memcpy (memcpy ?tape 0 (le_bytes sizeof_ukv_size_t ?len)) sizeof_ukv_size_t v
                   = le_bytes sizeof_ukv_size_t ?len @ v"
    by (simp add: length_le_bytes)
  from assms(4) have "export_error status None = (False, None) \<or> status = NotFound"
    by (auto simp: export_error_def)
  with assms(1,2,3) tape show ?thesis
    by (auto simp: read_one_def Let_def)
qed

lemma db_Get_after_Put:
  assumes "health rdb = Ok" and "is_family rdb f"
  shows "db_Put rdb w_options f key v = (Ok, rdb\<lparr>entries := AList.update (f, key) v (entries rdb)\<rparr>)"
    and "db_Get (rdb\<lparr>entries := AList.update (f, key) v (entries rdb)\<rparr>)
           \<lparr>snapshot = None, fill_cache = c\<rparr> f key = (Ok, v)"
  using assms
  by (simp_all add: db_Put_def db_Get_def is_family_def visible_def update_conv')

lemma column_family_handles:
  "handles rdb1 = handles rdb \<Longrightarrow> column_family rdb1 col = column_family rdb col"
  by (simp add: column_family_def family_of_def)

lemma le_bytes_4:
  "le_bytes 4 v = [of_nat (v mod 256), of_nat (v div 256 mod 256),
                   of_nat (v div 256 div 256 mod 256), of_nat (v div 256 div 256 div 256 mod 256)]"
proof -
  have four: "(4::nat) = Suc (Suc (Suc (Suc 0)))" by simp
  have "le_bytes (Suc (Suc (Suc (Suc 0)))) v =
          [of_nat (v mod 256), of_nat (v div 256 mod 256),
           of_nat (v div 256 div 256 mod 256), of_nat (v div 256 div 256 div 256 mod 256)]"
    by simp
  then show ?thesis by (simp only: four)
qed

lemma le_bytes_8:
  "le_bytes 8 v = le_bytes 4 v @ le_bytes 4 (v div 4294967296)"
proof -
  have more: "le_bytes (m + n) v = le_bytes m v @ le_bytes n (v div 256 ^ m)" for m n
    by (induction m arbitrary: v) (simp_all add: div_mult2_eq)
  from more [of 4 4] show ?thesis by simp
qed

lemma le_value_replicate_zero: "le_value (replicate n 0) = 0"
  by (induction n) simp_all

text \<open>The equations that evaluate the driver on a concrete request.\<close>

lemmas driver_defs =
  ukv_read_def ukv_scan_def read_one_def read_many_def cast_arena_def prepare_memory_def
  column_family_def family_of_def DefaultColumnFamily_def db_Get_def db_MultiGet_def
  is_family_def visible_def export_error_def memcpy_def found_length_def found_bytes_def
  sizeof_ukv_size_t_def sizeof_ukv_val_len_t_def sizeof_ukv_key_t_def ukv_val_len_missing_k_def
  to_slice_def Let_def le_bytes_4 le_bytes_8

lemmas scan_defs =
  db_NewIterator_def iterator_over_def Seek_def scanned_key_def scanned_length_def

subsection \<open>Reading and writing\<close>

text \<open>
  C1. The claim asks that a value written under a key through \<open>ukv_write\<close> be returned,
  with its length and bytes, by a read of that key through \<open>ukv_read\<close> outside any
  transaction. On an open data base that holds the default collection only, key 1 is
  written with the empty value (a value pointer that is not null, length 0) and the write
  succeeds; a read of two tasks, both for key 1, then goes through \<open>read_many\<close>, which
  reports \<open>ukv_val_len_missing_k\<close> for the key that was just written, at both positions.
\<close>

theorem written_empty_value_reads_back_as_missing_in_a_batch:
  "\<exists>w r. ukv_write \<lparr>ukv_option_read_transparent_k = 4, ukv_option_write_flush_k = 8\<rparr>
            \<lparr>columns = [Some 1],
             db = Some \<lparr>families = [(''default'', 0)], handles = [(1, 0)], entries = [], health = Ok\<rparr>\<rparr>
            None 1
            [\<lparr>wt_col = None, wt_key = 1, wt_begin = Some [], wt_offset = 0, wt_length = 0\<rparr>] 0 None
          = Inr w \<and>
          w_error w = None \<and>
          ukv_read \<lparr>ukv_option_read_transparent_k = 4, ukv_option_write_flush_k = 8\<rparr>
            (w_db w) None 2 [\<lparr>rt_col = None, rt_key = 1\<rparr>, \<lparr>rt_col = None, rt_key = 1\<rparr>] 0
            None None None None = Inr r \<and>
          r_error r = None \<and>
          found_length r 0 = Some ukv_val_len_missing_k \<and>
          found_length r 1 = Some ukv_val_len_missing_k"
  by (simp add: driver_defs ukv_write_def write_one_def is_deleted_def view_def db_Put_def)

text \<open>
  On the singleton path the round trip holds. With the data base open (the wrapper holds an
  engine that works) and a collection that is the default one or a live handle of an
  existing family: a write of one task whose value pointer is not null succeeds, and a read
  of one task for the same key then succeeds and reports the length of the value and its
  bytes; and a read of one task for a key that has no entry reports
  \<open>ukv_val_len_missing_k\<close>.
\<close>

lemma single_write_then_single_read_round_trip:
  assumes opened: "db c_db = Some rdb" "health rdb = Ok"
    and collection: "column_family rdb col = Inr f" "is_family rdb f"
    and task: "wt_col task = col" "wt_key task = key" "wt_begin task \<noteq> None"
  shows "(\<exists>w r. ukv_write K c_db None 1 [task] w_options None = Inr w \<and>
                 w_error w = None \<and>
                 ukv_read K (w_db w) None 1 [\<lparr>rt_col = col, rt_key = key\<rparr>] r_options
                   c_found_lengths c_found_values c_arena None = Inr r \<and>
                 r_error r = None \<and>
                 found_length r 0 = Some (of_nat (length (view task))) \<and>
                 found_bytes r 0 (length (view task)) = Some (view task)) \<and>
         (map_of (entries rdb) (f, to_slice key) = None \<longrightarrow>
          (\<exists>r. ukv_read K c_db None 1 [\<lparr>rt_col = col, rt_key = key\<rparr>] r_options
                   c_found_lengths c_found_values c_arena None = Inr r \<and>
                r_error r = None \<and>
                found_length r 0 = Some ukv_val_len_missing_k))"
proof (intro conjI impI)
  let ?options = "\<lparr>snapshot = None, fill_cache = True\<rparr>"
  let ?rdb1 = "rdb\<lparr>entries := AList.update (f, to_slice key) (view task) (entries rdb)\<rparr>"
  let ?w = "\<lparr>w_db = c_db\<lparr>db := Some ?rdb1\<rparr>, w_txn = None, w_error = None\<rparr>"
  let ?r = "\<lparr>r_found_lengths = Some 0, r_found_values = Some sizeof_ukv_size_t,
             r_arena = Some (cast_arena c_arena\<lparr>output_tape :=
               le_bytes sizeof_ukv_size_t (length (view task)) @ view task\<rparr>),
             r_error = None\<rparr>"
  from opened collection have put:
    "db_Put rdb \<lparr>sync = (w_options AND ukv_option_write_flush_k K \<noteq> 0)\<rparr> f (to_slice key) (view task)
       = (Ok, ?rdb1)"
    by (simp add: db_Get_after_Put(1))
  from opened collection task put
  have written: "ukv_write K c_db None 1 [task] w_options None = Inr ?w"
    by (auto simp: ukv_write_def write_one_def is_deleted_def export_error_def Let_def)
  have family: "column_family ?rdb1 col = Inr f"
    using collection(1) column_family_handles [of ?rdb1 rdb col] by simp
  from opened collection have "db_Get ?rdb1 ?options f (to_slice key) = (Ok, view task)"
    by (simp add: db_Get_after_Put(2))
  then have "read_one (c_db\<lparr>db := Some ?rdb1\<rparr>) None [\<lparr>rt_col = col, rt_key = key\<rparr>] 1 ?options
               c_found_lengths c_found_values (cast_arena c_arena) None = Inr ?r"
    using family by (simp add: read_one_outside_transaction [where rdb = ?rdb1 and status = Ok])
  then have read: "ukv_read K (w_db ?w) None 1 [\<lparr>rt_col = col, rt_key = key\<rparr>] r_options
                     c_found_lengths c_found_values c_arena None = Inr ?r"
    by (simp add: ukv_read_def)
  have "found_length ?r 0 = Some (of_nat (length (view task)))"
    by (simp add: found_length_def of_nat_le_value_length del: take_append)
  moreover have "found_bytes ?r 0 (length (view task)) = Some (view task)"
    by (simp add: found_bytes_def length_le_bytes)
  ultimately show "\<exists>w r. ukv_write K c_db None 1 [task] w_options None = Inr w \<and>
                 w_error w = None \<and>
                 ukv_read K (w_db w) None 1 [\<lparr>rt_col = col, rt_key = key\<rparr>] r_options
                   c_found_lengths c_found_values c_arena None = Inr r \<and>
                 r_error r = None \<and>
                 found_length r 0 = Some (of_nat (length (view task))) \<and>
                 found_bytes r 0 (length (view task)) = Some (view task)"
    using written read by (intro exI [of _ ?w] exI [of _ ?r]) simp
next
  let ?options = "\<lparr>snapshot = None, fill_cache = True\<rparr>"
  let ?r = "\<lparr>r_found_lengths = Some 0, r_found_values = Some sizeof_ukv_size_t,
             r_arena = Some (cast_arena c_arena\<lparr>output_tape :=
               le_bytes sizeof_ukv_size_t (unat ukv_val_len_missing_k) @ []\<rparr>),
             r_error = None\<rparr>"
  assume "map_of (entries rdb) (f, to_slice key) = None"
  with opened collection have "db_Get rdb ?options f (to_slice key) = (NotFound, [])"
    by (simp add: db_Get_def visible_def)
  with opened collection
  have "read_one c_db None [\<lparr>rt_col = col, rt_key = key\<rparr>] 1 ?options
          c_found_lengths c_found_values (cast_arena c_arena) None = Inr ?r"
    by (simp add: read_one_outside_transaction [where rdb = rdb and status = NotFound])
  then have read: "ukv_read K c_db None 1 [\<lparr>rt_col = col, rt_key = key\<rparr>] r_options
                     c_found_lengths c_found_values c_arena None = Inr ?r"
    by (simp add: ukv_read_def)
  have "found_length ?r 0 = Some (of_nat (unat ukv_val_len_missing_k))"
    by (simp add: found_length_def of_nat_le_value_length del: take_append append_Nil2)
  then have "found_length ?r 0 = Some ukv_val_len_missing_k"
    by simp
  with read show "\<exists>r. ukv_read K c_db None 1 [\<lparr>rt_col = col, rt_key = key\<rparr>] r_options
                   c_found_lengths c_found_values c_arena None = Inr r \<and>
                r_error r = None \<and>
                found_length r 0 = Some ukv_val_len_missing_k"
    by (intro exI [of _ ?r]) simp
qed

lemma single_write_then_single_read_round_trip_example:
  "db \<lparr>columns = [Some 1],
       db = Some \<lparr>families = [(''default'', 0)], handles = [(1, 0)], entries = [], health = Ok\<rparr>\<rparr>
     = Some \<lparr>families = [(''default'', 0)], handles = [(1, 0)], entries = [], health = Ok\<rparr> \<and>
   health \<lparr>families = [(''default'', 0)], handles = [(1, 0)], entries = [], health = Ok\<rparr> = Ok \<and>
   column_family \<lparr>families = [(''default'', 0)], handles = [(1, 0)], entries = [], health = Ok\<rparr> None
     = Inr 0 \<and>
   is_family \<lparr>families = [(''default'', 0)], handles = [(1, 0)], entries = [], health = Ok\<rparr> 0 \<and>
   (\<exists>w r. ukv_write \<lparr>ukv_option_read_transparent_k = 4, ukv_option_write_flush_k = 8\<rparr>
             \<lparr>columns = [Some 1],
              db = Some \<lparr>families = [(''default'', 0)], handles = [(1, 0)], entries = [], health = Ok\<rparr>\<rparr>
             None 1
             [\<lparr>wt_col = None, wt_key = 42,
               wt_begin = Some [112, 117, 114, 112, 111, 115, 101, 32, 111, 102, 32, 108, 105, 102, 101],
               wt_offset = 0, wt_length = 15\<rparr>] 0 None = Inr w \<and>
          w_error w = None \<and>
          ukv_read \<lparr>ukv_option_read_transparent_k = 4, ukv_option_write_flush_k = 8\<rparr>
            (w_db w) None 1 [\<lparr>rt_col = None, rt_key = 42\<rparr>] 0 None None None None = Inr r \<and>
          r_error r = None \<and>
          found_length r 0 = Some 15 \<and>
          found_bytes r 0 15
            = Some [112, 117, 114, 112, 111, 115, 101, 32, 111, 102, 32, 108, 105, 102, 101]) \<and>
   (\<exists>r. ukv_read \<lparr>ukv_option_read_transparent_k = 4, ukv_option_write_flush_k = 8\<rparr>
           \<lparr>columns = [Some 1],
            db = Some \<lparr>families = [(''default'', 0)], handles = [(1, 0)], entries = [], health = Ok\<rparr>\<rparr>
           None 1 [\<lparr>rt_col = None, rt_key = 42\<rparr>] 0 None None None None = Inr r \<and>
        r_error r = None \<and>
        found_length r 0 = Some ukv_val_len_missing_k)"
proof -
  let ?rdb = "\<lparr>families = [(''default'', 0)], handles = [(1, 0)], entries = [], health = Ok\<rparr>"
  let ?c_db = "\<lparr>columns = [Some 1], db = Some ?rdb\<rparr>"
  let ?task = "\<lparr>wt_col = None, wt_key = 42,
               wt_begin = Some [112, 117, 114, 112, 111, 115, 101, 32, 111, 102, 32, 108, 105, 102, 101],
               wt_offset = 0, wt_length = 15\<rparr>"
  have h1: "db ?c_db = Some ?rdb" and h2: "health ?rdb = Ok"
    by simp_all
  have h3: "column_family ?rdb None = Inr 0"
    by (simp add: column_family_def family_of_def)
  have h4: "is_family ?rdb 0"
    by (simp add: is_family_def)
  have h5: "wt_col ?task = None" and h6: "wt_key ?task = 42" and h7: "wt_begin ?task \<noteq> None"
    by simp_all
  have v: "view ?task = [112, 117, 114, 112, 111, 115, 101, 32, 111, 102, 32, 108, 105, 102, 101]"
    by (simp add: view_def)
  have len: "length [112, 117, 114, 112, 111, 115, 101, 32, 111, 102, 32, 108, 105, 102, 101 :: byte_t] = 15"
    by simp
  have unwritten: "map_of (entries ?rdb) (0, to_slice 42) = None"
    by simp
  note round_trip = single_write_then_single_read_round_trip [OF h1 h2 h3 h4 h5 h6 h7,
      of "\<lparr>ukv_option_read_transparent_k = 4, ukv_option_write_flush_k = 8\<rparr>" 0 0 None None None]
  from round_trip unwritten h1 h2 h3 h4 show ?thesis
    unfolding v len by simp
qed

text \<open>
  C2. The claim asks that a batch read report an absent key with
  \<open>ukv_val_len_missing_k\<close> and a key present with an empty value with length 0, at every
  position and for every batch size. A batch of two reads over a collection that holds
  key 1 with the empty value and key 2 with one byte goes through \<open>read_many\<close>, which
  decides by the size of the value the engine returned and never looks at the statuses:
  the present, empty value of key 1 is reported as missing. (\<open>read_one\<close> tests
  \<^verbatim>\<open>status.IsNotFound()\<close> and reports 0 for the same key, see C9.)
\<close>

theorem batch_read_reports_empty_value_as_missing:
  "\<exists>r. ukv_read \<lparr>ukv_option_read_transparent_k = 4, ukv_option_write_flush_k = 8\<rparr>
          \<lparr>columns = [Some 1],
           db = Some \<lparr>families = [(''default'', 0)], handles = [(1, 0)],
                      entries = [((0, to_slice 1), []), ((0, to_slice 2), [7])], health = Ok\<rparr>\<rparr>
          None 2 [\<lparr>rt_col = None, rt_key = 1\<rparr>, \<lparr>rt_col = None, rt_key = 2\<rparr>] 0
          None None None None = Inr r \<and>
        r_error r = None \<and>
        found_length r 0 = Some ukv_val_len_missing_k \<and>
        found_length r 1 = Some 1"
  by (simp add: driver_defs)

text \<open>
  C9. The claim asks that on a one-task request \<open>read_one\<close> and \<open>read_many\<close> report the
  same length and bytes. For a key that is present with the empty value, \<open>read_one\<close>
  reports length 0 and \<open>read_many\<close>, run on the same task, reports
  \<open>ukv_val_len_missing_k\<close>.
\<close>

theorem read_one_and_read_many_differ_on_empty_value:
  "\<exists>r1 r2.
     read_one
       \<lparr>columns = [Some 1],
        db = Some \<lparr>families = [(''default'', 0)], handles = [(1, 0)],
                   entries = [((0, to_slice 1), [])], health = Ok\<rparr>\<rparr>
       None [\<lparr>rt_col = None, rt_key = 1\<rparr>] 1 \<lparr>snapshot = None, fill_cache = True\<rparr>
       None None \<lparr>output_tape = []\<rparr> None = Inr r1 \<and>
     read_many
       \<lparr>columns = [Some 1],
        db = Some \<lparr>families = [(''default'', 0)], handles = [(1, 0)],
                   entries = [((0, to_slice 1), [])], health = Ok\<rparr>\<rparr>
       None [\<lparr>rt_col = None, rt_key = 1\<rparr>] 1 \<lparr>snapshot = None, fill_cache = True\<rparr>
       None None \<lparr>output_tape = []\<rparr> None = Inr r2 \<and>
     r_error r1 = None \<and> r_error r2 = None \<and>
     found_length r1 0 = Some 0 \<and>
     found_length r2 0 = Some ukv_val_len_missing_k"
  by (simp add: driver_defs)

text \<open>
  The write paths on a one-task request. Outside a transaction \<open>write_one\<close> and
  \<open>write_many\<close> return the same data base and the same error, whatever the task.
\<close>

lemma write_one_and_write_many_agree_outside_transaction:
  "write_one c_db None [task] 1 options c_error = write_many c_db None [task] 1 options c_error"
  by (cases "wt_begin task")
     (auto simp: write_one_def write_many_def is_deleted_def db_Put_def db_Delete_def
        db_SingleDelete_def db_Write_def Let_def split: option.splits sum.splits)

text \<open>
  Inside a transaction they differ when the engine fails: \<open>write_one\<close> exports the status
  of its \<^verbatim>\<open>Put\<close>, \<open>write_many\<close> drops it and returns without an error.
\<close>

lemma write_one_and_write_many_differ_in_transaction:
  "write_one
     \<lparr>columns = [Some 1],
      db = Some \<lparr>families = [(''default'', 0)], handles = [(1, 0)], entries = [], health = IOError\<rparr>\<rparr>
     (Some \<lparr>txn_snapshot = [], txn_batch = []\<rparr>)
     [\<lparr>wt_col = None, wt_key = 1, wt_begin = Some [7], wt_offset = 0, wt_length = 1\<rparr>] 1
     \<lparr>sync = False\<rparr> None
   = Inr \<lparr>w_db = \<lparr>columns = [Some 1],
                   db = Some \<lparr>families = [(''default'', 0)], handles = [(1, 0)], entries = [],
                              health = IOError\<rparr>\<rparr>,
          w_txn = Some \<lparr>txn_snapshot = [], txn_batch = []\<rparr>,
          w_error = Some ''Failure: IO  Error''\<rparr> \<and>
   write_many
     \<lparr>columns = [Some 1],
      db = Some \<lparr>families = [(''default'', 0)], handles = [(1, 0)], entries = [], health = IOError\<rparr>\<rparr>
     (Some \<lparr>txn_snapshot = [], txn_batch = []\<rparr>)
     [\<lparr>wt_col = None, wt_key = 1, wt_begin = Some [7], wt_offset = 0, wt_length = 1\<rparr>] 1
     \<lparr>sync = False\<rparr> None
   = Inr \<lparr>w_db = \<lparr>columns = [Some 1],
                   db = Some \<lparr>families = [(''default'', 0)], handles = [(1, 0)], entries = [],
                              health = IOError\<rparr>\<rparr>,
          w_txn = Some \<lparr>txn_snapshot = [], txn_batch = []\<rparr>,
          w_error = None\<rparr>"
  by (simp add: write_one_def write_many_def is_deleted_def txn_Put_def column_family_def
      family_of_def DefaultColumnFamily_def export_error_def)

subsection \<open>Reads and scans inside a transaction\<close>

text \<open>
  C7. A read or a scan issued inside a transaction (the transaction handle is not null)
  without the \<open>read_transparent\<close> option is refused before anything else happens: the
  error is set to the driver's message that only transparent reads are supported, and the
  output pointers and the arena are returned as they were passed in.
\<close>

theorem transactional_read_and_scan_refused:
  assumes "c_txn \<noteq> None" and "c_options AND ukv_option_read_transparent_k K = 0"
  shows "ukv_read K c_db c_txn n reads c_options c_found_lengths c_found_values c_arena c_error
           = Inr \<lparr>r_found_lengths = c_found_lengths, r_found_values = c_found_values,
                  r_arena = c_arena, r_error = Some ''RocksDB only supports transparent reads!''\<rparr> \<and>
         ukv_scan K c_db c_txn m scans c_options c_found_keys c_scanned_lengths c_arena c_error
           = Inr \<lparr>s_found_keys = c_found_keys, s_found_lengths = c_scanned_lengths,
                  s_arena = c_arena, s_error = Some ''RocksDB only supports transparent reads!''\<rparr>"
  using assms by (simp add: ukv_read_def ukv_scan_def)

theorem transactional_read_and_scan_refused_witness:
  "Some \<lparr>txn_snapshot = [], txn_batch = []\<rparr> \<noteq> None \<and>
   (0 :: ukv_options_t) AND ukv_option_read_transparent_k
      \<lparr>ukv_option_read_transparent_k = 4, ukv_option_write_flush_k = 8\<rparr> = 0 \<and>
   ukv_read \<lparr>ukv_option_read_transparent_k = 4, ukv_option_write_flush_k = 8\<rparr>
     \<lparr>columns = [Some 1],
      db = Some \<lparr>families = [(''default'', 0)], handles = [(1, 0)], entries = [], health = Ok\<rparr>\<rparr>
     (Some \<lparr>txn_snapshot = [], txn_batch = []\<rparr>) 1 [\<lparr>rt_col = None, rt_key = 42\<rparr>] 0
     None None None None
     = Inr \<lparr>r_found_lengths = None, r_found_values = None, r_arena = None,
            r_error = Some ''RocksDB only supports transparent reads!''\<rparr> \<and>
   ukv_scan \<lparr>ukv_option_read_transparent_k = 4, ukv_option_write_flush_k = 8\<rparr>
     \<lparr>columns = [Some 1],
      db = Some \<lparr>families = [(''default'', 0)], handles = [(1, 0)], entries = [], health = Ok\<rparr>\<rparr>
     (Some \<lparr>txn_snapshot = [], txn_batch = []\<rparr>) 1
     [\<lparr>st_col = None, st_min_key = 10, st_length = 5\<rparr>] 0
     None None None None
     = Inr \<lparr>s_found_keys = None, s_found_lengths = None, s_arena = None,
            s_error = Some ''RocksDB only supports transparent reads!''\<rparr>"
proof -
  have h1: "Some \<lparr>txn_snapshot = [], txn_batch = []\<rparr> \<noteq> None"
    by simp
  have h2: "(0 :: ukv_options_t) AND ukv_option_read_transparent_k
      \<lparr>ukv_option_read_transparent_k = 4, ukv_option_write_flush_k = 8\<rparr> = 0"
    by simp
  from transactional_read_and_scan_refused [OF h1 h2] h1 h2 show ?thesis
    by simp
qed

subsection \<open>Scans\<close>

text \<open>
  C4. The claim asks that every scan task return the keys from the first key at or above
  \<open>min_key\<close>, at most \<open>max_count\<close> of them, in ascending order, each with the length of
  its value. On scenario 6 of the specification (one task, \<open>min_key = 10\<close>,
  \<open>max_count = 5\<close>, over the keys 5, 10, 12, 20, 25 and 30 of the default collection) the
  tape has room for one key and one length, and the inner loop, counting with the index of
  the loop over the tasks, stores the second key past it.
\<close>

theorem scan_overruns_its_tape:
  "ukv_scan \<lparr>ukv_option_read_transparent_k = 4, ukv_option_write_flush_k = 8\<rparr>
     \<lparr>columns = [Some 1],
      db = Some \<lparr>families = [(''default'', 0)], handles = [(1, 0)],
                 entries = [((0, to_slice 5), [1]), ((0, to_slice 10), [1, 2]),
                            ((0, to_slice 12), [1, 2, 3]), ((0, to_slice 20), [1, 2, 3, 4]),
                            ((0, to_slice 25), [1, 2, 3, 4, 5]), ((0, to_slice 30), [1, 2, 3, 4, 5, 6])],
                 health = Ok\<rparr>\<rparr>
     None 1 [\<lparr>st_col = None, st_min_key = 10, st_length = 5\<rparr>] 0 None None None None
   = Inl Out_Of_Bounds"
  by (simp add: driver_defs scan_defs)

text \<open>
  Two more runs of the same loop, both within the tape. With two tasks over a collection
  that holds key 5, the first task stores its key at index 0, the shared index then steps
  to 2 and the second task is never read: its slot stays as the arena was prepared. With
  three tasks over the keys 1 and 256 the first task stores both keys, 256 before 1: the
  engine orders the key slices bytewise, and the low byte of a key comes first in its slice.
\<close>

lemma scan_skips_the_second_task:
  "\<exists>r. ukv_scan \<lparr>ukv_option_read_transparent_k = 4, ukv_option_write_flush_k = 8\<rparr>
          \<lparr>columns = [Some 1],
           db = Some \<lparr>families = [(''default'', 0)], handles = [(1, 0)],
                      entries = [((0, to_slice 5), [97])], health = Ok\<rparr>\<rparr>
          None 2 [\<lparr>st_col = None, st_min_key = 0, st_length = 1\<rparr>,
                  \<lparr>st_col = None, st_min_key = 0, st_length = 1\<rparr>] 0 None None None None = Inr r \<and>
        s_error r = None \<and>
        scanned_key r 0 = Some 5 \<and> scanned_length r 0 = Some 1 \<and>
        scanned_key r 1 = Some 0 \<and> scanned_length r 1 = Some 0"
  by (simp add: driver_defs scan_defs le_value_replicate_zero)

lemma scan_follows_the_byte_order_of_the_slices:
  "\<exists>r. ukv_scan \<lparr>ukv_option_read_transparent_k = 4, ukv_option_write_flush_k = 8\<rparr>
          \<lparr>columns = [Some 1],
           db = Some \<lparr>families = [(''default'', 0)], handles = [(1, 0)],
                      entries = [((0, to_slice 1), [97]), ((0, to_slice 256), [98, 99])],
                      health = Ok\<rparr>\<rparr>
          None 3 [\<lparr>st_col = None, st_min_key = 0, st_length = 2\<rparr>,
                  \<lparr>st_col = None, st_min_key = 0, st_length = 2\<rparr>,
                  \<lparr>st_col = None, st_min_key = 0, st_length = 2\<rparr>] 0 None None None None = Inr r \<and>
        s_error r = None \<and>
        scanned_key r 0 = Some 256 \<and> scanned_length r 0 = Some 2 \<and>
        scanned_key r 1 = Some 1 \<and> scanned_length r 1 = Some 1"
  by (simp add: driver_defs scan_defs)

subsection \<open>Collections\<close>

text \<open>
  C5. The claim asks that \<open>ukv_collection_open\<close> return the handle of the named
  collection, creating it when it does not exist. On a data base that holds the default
  collection only, opening \<^verbatim>\<open>"sub"\<close> makes the engine create the family and its handle
  (address 2), and the call returns without an error; but the handle is stored only under
  \<^verbatim>\<open>if (export_error(status, c_error))\<close>, so \<^verbatim>\<open>*c_col\<close> keeps the null the caller
  passed (which denotes the default collection) and \<open>columns\<close> does not learn the handle.
\<close>

theorem collection_open_returns_no_new_handle:
  "ukv_collection_open
     \<lparr>columns = [Some 1],
      db = Some \<lparr>families = [(''default'', 0)], handles = [(1, 0)], entries = [], health = Ok\<rparr>\<rparr>
     (Some ''sub'') None None
   = Inr \<lparr>c_db1 = \<lparr>columns = [Some 1],
                    db = Some \<lparr>families = [(''default'', 0), (''sub'', 1)],
                               handles = [(1, 0), (2, 1)], entries = [], health = Ok\<rparr>\<rparr>,
          c_col1 = None, c_error1 = None\<rparr>"
  by (simp add: ukv_collection_open_def GetName_def family_of_def DefaultColumnFamily_def
      CreateColumnFamily_def fresh_def export_error_def)

text \<open>
  Opening \<^verbatim>\<open>"sub"\<close> again on the resulting data base: the name is not among \<open>columns\<close>,
  the engine refuses to create a family whose name is taken, and on this failure the null
  handle is appended to \<open>columns\<close> and stored into \<^verbatim>\<open>*c_col\<close>.
\<close>

lemma collection_open_failure_appends_null_handle:
  "ukv_collection_open
     \<lparr>columns = [Some 1],
      db = Some \<lparr>families = [(''default'', 0), (''sub'', 1)],
                 handles = [(1, 0), (2, 1)], entries = [], health = Ok\<rparr>\<rparr>
     (Some ''sub'') (Some 1) None
   = Inr \<lparr>c_db1 = \<lparr>columns = [Some 1, None],
                    db = Some \<lparr>families = [(''default'', 0), (''sub'', 1)],
                               handles = [(1, 0), (2, 1)], entries = [], health = Ok\<rparr>\<rparr>,
          c_col1 = None, c_error1 = Some ''Failure: Invalid Argument''\<rparr>"
  by (simp add: ukv_collection_open_def GetName_def family_of_def DefaultColumnFamily_def
      CreateColumnFamily_def fresh_def export_error_def)

text \<open>
  C6. The claim asks that \<open>ukv_collection_remove\<close> remove all entries of the collection,
  and that on the default collection it succeed and leave it existing but empty. On a data
  base with the collections \<^verbatim>\<open>"default"\<close> (one entry) and \<^verbatim>\<open>"sub"\<close> (one entry),
  removing \<^verbatim>\<open>"sub"\<close> and removing \<^verbatim>\<open>"default"\<close> both return without an error, and
  each only destroys the handle object of the collection: every entry and both families
  are still there, and the destroyed handle is still listed in \<open>columns\<close>.
\<close>

theorem collection_remove_keeps_entries:
  "ukv_collection_remove
     \<lparr>columns = [Some 1, Some 2],
      db = Some \<lparr>families = [(''default'', 0), (''sub'', 1)], handles = [(1, 0), (2, 1)],
                 entries = [((1, to_slice 7), [1, 2, 3]), ((0, to_slice 42), [4, 5])], health = Ok\<rparr>\<rparr>
     (Some ''sub'') None
   = Inr \<lparr>m_db = \<lparr>columns = [Some 1, Some 2],
                   db = Some \<lparr>families = [(''default'', 0), (''sub'', 1)], handles = [(1, 0)],
                              entries = [((1, to_slice 7), [1, 2, 3]), ((0, to_slice 42), [4, 5])],
                              health = Ok\<rparr>\<rparr>,
          m_error = None\<rparr> \<and>
   ukv_collection_remove
     \<lparr>columns = [Some 1, Some 2],
      db = Some \<lparr>families = [(''default'', 0), (''sub'', 1)], handles = [(1, 0), (2, 1)],
                 entries = [((1, to_slice 7), [1, 2, 3]), ((0, to_slice 42), [4, 5])], health = Ok\<rparr>\<rparr>
     (Some ''default'') None
   = Inr \<lparr>m_db = \<lparr>columns = [Some 1, Some 2],
                   db = Some \<lparr>families = [(''default'', 0), (''sub'', 1)], handles = [(2, 1)],
                              entries = [((1, to_slice 7), [1, 2, 3]), ((0, to_slice 42), [4, 5])],
                              health = Ok\<rparr>\<rparr>,
          m_error = None\<rparr>"
  by (simp add: ukv_collection_remove_def GetName_def family_of_def DefaultColumnFamily_def
      DestroyColumnFamilyHandle_def export_error_def AList.delete_eq)

subsection \<open>Failure and outputs\<close>

text \<open>
  C8. The claim asks that a call that sets an error leave the data base and every output
  of the caller untouched, and names the handle of a failed open. When the engine cannot
  open (here with an I/O error, no data base and no column handles), \<open>ukv_open\<close> sets
  "Open Error" and still stores the wrapper, whose data base pointer is null, into
  \<^verbatim>\<open>*c_db\<close>.
\<close>

theorem open_failure_stores_handle:
  "ukv_open \<lparr>open_status = IOError, open_columns = [], open_db = None\<rparr> None None
     = \<lparr>o_db = Some \<lparr>columns = [], db = None\<rparr>, o_error = Some ''Open Error''\<rparr>"
  by (simp add: ukv_open_def)

subsection \<open>Graph neighbourships\<close>

text \<open>
  C10. The claim asks that \<^verbatim>\<open>operator<\<close> be a strict weak ordering agreeing with the
  lexicographic order on (neighbor\_id, edge\_id) and that \<^verbatim>\<open>operator==\<close> hold exactly
  for equal fields. On the default-constructed value (both fields 0) compared with itself the
  code answers the other way round: \<^verbatim>\<open>a < a\<close> is true (so the relation is not irreflexive)
  and \<^verbatim>\<open>a == a\<close> is false.
\<close>

theorem neighborship_default_compares_wrongly:
  "neighborship_less \<lparr>neighbor_id = 0, edge_id = 0\<rparr> \<lparr>neighbor_id = 0, edge_id = 0\<rparr> = True \<and>
   neighborship_eq \<lparr>neighbor_id = 0, edge_id = 0\<rparr> \<lparr>neighbor_id = 0, edge_id = 0\<rparr> = False"
  by (simp add: neighborship_less_def neighborship_eq_def)

end
